theory Spec2Isabelle
  imports Complex_Main
begin

section \<open>The crop-yield predictor component\<close>

text \<open>
  A shallow embedding of the React component \<open>CropYieldPredictor\<close> and of the page
  \<open>Index\<close> that mounts it. The component keeps seven state cells (\<open>useState\<close>);
  every handler is modelled as a function from the state to the new state and the list
  of effects it performs on its collaborators (toast, callbacks, geolocation, fetch,
  console), in the order the source performs them.
\<close>

subsection \<open>JavaScript values\<close>

text \<open>
  A JavaScript number is a double: a finite value, one of the two infinities or NaN.
  The component does no arithmetic on numbers; it tests them for truthiness, stores them
  and prints them. Finite values are modelled by reals (every double is one; \<open>0\<close> and
  \<open>-0\<close> coincide, and both are falsy).
\<close>

datatype number = Num real | PosInfinity | NegInfinity | NaN

text \<open>Truthiness of a number (\<open>!x\<close>, \<open>x || y\<close>): \<open>0\<close> and \<open>NaN\<close> are falsy.\<close>

fun truthy :: "number \<Rightarrow> bool" where
  "truthy (Num r) = (r \<noteq> 0)"
| "truthy PosInfinity = True"
| "truthy NegInfinity = True"
| "truthy NaN = False"

text \<open>The comparison \<open>a <= b\<close> of two numbers; any comparison with NaN is false.\<close>

fun js_le :: "number \<Rightarrow> number \<Rightarrow> bool" where
  "js_le NaN _ = False"
| "js_le _ NaN = False"
| "js_le NegInfinity _ = True"
| "js_le _ PosInfinity = True"
| "js_le PosInfinity _ = False"
| "js_le _ NegInfinity = False"
| "js_le (Num a) (Num b) = (a \<le> b)"

text \<open>\<open>a > b\<close>, which on numbers other than NaN is the negation of \<open>a <= b\<close>.\<close>

fun js_gt :: "number \<Rightarrow> number \<Rightarrow> bool" where
  "js_gt NaN _ = False"
| "js_gt _ NaN = False"
| "js_gt a b = (\<not> js_le a b)"

text \<open>\<open>x || 0\<close> and \<open>x || null\<close> on the result of \<open>parseFloat\<close>.\<close>

definition or_zero :: "number \<Rightarrow> number" where
  "or_zero x = (if truthy x then x else Num 0)"

definition or_null :: "number \<Rightarrow> number option" where
  "or_null x = (if truthy x then Some x else None)"

text \<open>A \<open>Date\<close> is its time value in milliseconds; a \<open>File\<close> is its name.\<close>

type_synonym date = int
type_synonym File = string

subsection \<open>Interfaces\<close>

text \<open>\<open>{ value: number; unit: string }\<close>, the type of \<open>farmSize\<close> and \<open>predictedYield\<close>.\<close>

record value_unit =
  value' :: number
  unit :: string

record location =
  lat :: number
  lon :: number
  name :: string

record PredictionData =
  cropName :: string
  variety :: string
  sowingDate :: "date option"
  farmLocation :: "location option"
  farmSize :: value_unit
  soilType :: string
  soilPH :: "number option"
  nLevel :: "number option"
  pLevel :: "number option"
  kLevel :: "number option"
  irrigationSource :: string
  lastIrrigationDate :: "date option"
  fertilizersUsed :: "string list"
  pestObserved :: bool
  pestPhoto :: "File option"

record interval =
  min' :: number
  max' :: number

record recommendation =
  type' :: string
  title :: string
  description :: string
  icon :: string

record PredictionResult =
  predictedYield :: value_unit
  confidenceInterval :: interval
  recommendations :: "recommendation list"
  explanation :: string
  isOffline :: "bool option"

text \<open>
  The props \<open>onPredict?\<close> and \<open>onSave?\<close> are optional callbacks; the record says
  whether each is supplied. A supplied callback is taken to return normally: the two that
  \<open>Index\<close> passes only write to the console.
\<close>

record props =
  onPredict :: bool
  onSave :: bool

definition Index :: props where
  "Index = \<lparr>onPredict = True, onSave = True\<rparr>"

text \<open>
  What the component reads from the platform: whether \<open>navigator.geolocation\<close> exists,
  and the two number formatters it uses, \<open>Number.prototype.toFixed(4)\<close> and the
  conversion of a number to a string inside a template literal.
\<close>

record platform =
  geolocation :: bool
  toFixed4 :: "number \<Rightarrow> string"
  toString :: "number \<Rightarrow> string"

subsection \<open>Effects\<close>

datatype variant = Default | Destructive

datatype event =
    Toast string string variant
  | OnPredict PredictionData
  | OnSave PredictionData
  | GetCurrentPosition bool nat nat
  | Fetch string
  | ConsoleLog string string
  | ConsoleError string

text \<open>The calls of \<open>fetch\<close>, which only the two enrichment fetchers make.\<close>

fun is_fetch :: "event \<Rightarrow> bool" where
  "is_fetch (Fetch _) = True"
| "is_fetch _ = False"

fun is_OnSave :: "event \<Rightarrow> bool" where
  "is_OnSave (OnSave _) = True"
| "is_OnSave _ = False"

subsection \<open>State\<close>

datatype lang = En | Hi

record state =
  language :: lang
  isOnline :: bool
  isLoading :: bool
  isLocating :: bool
  data :: PredictionData
  result :: "PredictionResult option"
  selectedFertilizers :: "string list"

text \<open>The initial values of the state cells; \<open>online\<close> is \<open>navigator.onLine\<close>.\<close>

definition init_data :: PredictionData where
  "init_data = \<lparr>cropName = '''', variety = '''', sowingDate = None, farmLocation = None,
     farmSize = \<lparr>value' = Num 0, unit = ''Hectares''\<rparr>, soilType = '''', soilPH = None,
     nLevel = None, pLevel = None, kLevel = None, irrigationSource = '''',
     lastIrrigationDate = None, fertilizersUsed = [], pestObserved = False,
     pestPhoto = None\<rparr>"

definition init :: "bool \<Rightarrow> state" where
  "init online = \<lparr>language = En, isOnline = online, isLoading = False, isLocating = False,
     data = init_data, result = None, selectedFertilizers = []\<rparr>"

subsection \<open>Network status monitoring\<close>

datatype net_event = Online | Offline

fun handleNet :: "net_event \<Rightarrow> state \<Rightarrow> state" where
  "handleNet Online s = s\<lparr>isOnline := True\<rparr>"
| "handleNet Offline s = s\<lparr>isOnline := False\<rparr>"

subsection \<open>Field handlers\<close>

text \<open>
  The form has one inline handler per input, each of the shape
  \<open>setData(prev => ({ ...prev, field: v }))\<close>. The numeric inputs pass the result of
  \<open>parseFloat\<close> through \<open>|| 0\<close> (farm size) or \<open>|| null\<close> (pH and nutrient levels);
  the handlers below take the parsed number.
\<close>

datatype field_update =
    SetCropName string
  | SetVariety string
  | SetSowingDate "date option"
  | SetFarmSizeValue number
  | SetFarmSizeUnit string
  | SetSoilType string
  | SetSoilPH number
  | SetNLevel number
  | SetPLevel number
  | SetKLevel number
  | SetIrrigationSource string
  | SetLastIrrigationDate "date option"
  | SetPestObserved bool

fun updateField :: "field_update \<Rightarrow> PredictionData \<Rightarrow> PredictionData" where
  "updateField (SetCropName v) prev = prev\<lparr>cropName := v\<rparr>"
| "updateField (SetVariety v) prev = prev\<lparr>variety := v\<rparr>"
| "updateField (SetSowingDate v) prev = prev\<lparr>sowingDate := v\<rparr>"
| "updateField (SetFarmSizeValue v) prev =
     prev\<lparr>farmSize := (farmSize prev)\<lparr>value' := or_zero v\<rparr>\<rparr>"
| "updateField (SetFarmSizeUnit v) prev =
     prev\<lparr>farmSize := (farmSize prev)\<lparr>unit := v\<rparr>\<rparr>"
| "updateField (SetSoilType v) prev = prev\<lparr>soilType := v\<rparr>"
| "updateField (SetSoilPH v) prev = prev\<lparr>soilPH := or_null v\<rparr>"
| "updateField (SetNLevel v) prev = prev\<lparr>nLevel := or_null v\<rparr>"
| "updateField (SetPLevel v) prev = prev\<lparr>pLevel := or_null v\<rparr>"
| "updateField (SetKLevel v) prev = prev\<lparr>kLevel := or_null v\<rparr>"
| "updateField (SetIrrigationSource v) prev = prev\<lparr>irrigationSource := v\<rparr>"
| "updateField (SetLastIrrigationDate v) prev = prev\<lparr>lastIrrigationDate := v\<rparr>"
| "updateField (SetPestObserved v) prev = prev\<lparr>pestObserved := v\<rparr>"

definition setData :: "field_update \<Rightarrow> state \<Rightarrow> state" where
  "setData u s = s\<lparr>data := updateField u (data s)\<rparr>"

text \<open>
  The attributes of a \<open>PredictionData\<close>, the two attributes of \<open>farmSize\<close> counted
  apart, with the attribute each handler writes and a projection that reads any of them.
\<close>

datatype field =
    FCropName | FVariety | FSowingDate | FFarmLocation | FFarmSizeValue | FFarmSizeUnit
  | FSoilType | FSoilPH | FNLevel | FPLevel | FKLevel | FIrrigationSource
  | FLastIrrigationDate | FFertilizersUsed | FPestObserved | FPestPhoto

datatype fval =
    VString string
  | VNumber number
  | VNumberOpt "number option"
  | VDate "date option"
  | VLocation "location option"
  | VStrings "string list"
  | VBool bool
  | VFile "File option"

fun target :: "field_update \<Rightarrow> field" where
  "target (SetCropName _) = FCropName"
| "target (SetVariety _) = FVariety"
| "target (SetSowingDate _) = FSowingDate"
| "target (SetFarmSizeValue _) = FFarmSizeValue"
| "target (SetFarmSizeUnit _) = FFarmSizeUnit"
| "target (SetSoilType _) = FSoilType"
| "target (SetSoilPH _) = FSoilPH"
| "target (SetNLevel _) = FNLevel"
| "target (SetPLevel _) = FPLevel"
| "target (SetKLevel _) = FKLevel"
| "target (SetIrrigationSource _) = FIrrigationSource"
| "target (SetLastIrrigationDate _) = FLastIrrigationDate"
| "target (SetPestObserved _) = FPestObserved"

fun proj :: "field \<Rightarrow> PredictionData \<Rightarrow> fval" where
  "proj FCropName d = VString (cropName d)"
| "proj FVariety d = VString (variety d)"
| "proj FSowingDate d = VDate (sowingDate d)"
| "proj FFarmLocation d = VLocation (farmLocation d)"
| "proj FFarmSizeValue d = VNumber (value' (farmSize d))"
| "proj FFarmSizeUnit d = VString (unit (farmSize d))"
| "proj FSoilType d = VString (soilType d)"
| "proj FSoilPH d = VNumberOpt (soilPH d)"
| "proj FNLevel d = VNumberOpt (nLevel d)"
| "proj FPLevel d = VNumberOpt (pLevel d)"
| "proj FKLevel d = VNumberOpt (kLevel d)"
| "proj FIrrigationSource d = VString (irrigationSource d)"
| "proj FLastIrrigationDate d = VDate (lastIrrigationDate d)"
| "proj FFertilizersUsed d = VStrings (fertilizersUsed d)"
| "proj FPestObserved d = VBool (pestObserved d)"
| "proj FPestPhoto d = VFile (pestPhoto d)"

subsection \<open>toggleFertilizer\<close>

definition toggle :: "string \<Rightarrow> string list \<Rightarrow> string list" where
  "toggle fertilizer xs =
     (if fertilizer \<in> set xs then filter (\<lambda>f. f \<noteq> fertilizer) xs else xs @ [fertilizer])"

definition toggleFertilizer :: "string \<Rightarrow> state \<Rightarrow> state" where
  "toggleFertilizer fertilizer s =
     (let updated = toggle fertilizer (selectedFertilizers s)
      in s\<lparr>selectedFertilizers := updated,
           data := (data s)\<lparr>fertilizersUsed := updated\<rparr>\<rparr>)"

subsection \<open>handlePredict\<close>

text \<open>The interpolation \<open>${data.soilPH}\<close> of a \<open>number | null\<close>.\<close>

definition show_soilPH :: "platform \<Rightarrow> number option \<Rightarrow> string" where
  "show_soilPH pf ph = (case ph of None \<Rightarrow> ''null'' | Some x \<Rightarrow> toString pf x)"

definition mock_recommendations :: "recommendation list" where
  "mock_recommendations =
     [\<lparr>type' = ''irrigation'', title = ''Optimize Irrigation'',
        description = ''Increase irrigation frequency by 20% during flowering stage'',
        icon = ''droplets''\<rparr>,
      \<lparr>type' = ''fertilization'', title = ''Nitrogen Boost'',
        description = ''Apply additional 15kg/ha nitrogen in the next 2 weeks'',
        icon = ''zap''\<rparr>,
      \<lparr>type' = ''pest'', title = ''Pest Monitoring'',
        description = ''Monitor for aphids and apply organic neem spray if needed'',
        icon = ''bug''\<rparr>]"

definition mock_explanation :: "platform \<Rightarrow> PredictionData \<Rightarrow> string" where
  "mock_explanation pf d =
     ''Based on your '' @ cropName d @
     '' variety, soil conditions, and current weather patterns, we predict a yield of 4.2 tonnes per hectare. The soil pH of ''
     @ show_soilPH pf (soilPH d) @
     '' is optimal for this crop. Consider the recommendations above to potentially increase yield by 8-12%.''"

definition mockResult :: "platform \<Rightarrow> PredictionData \<Rightarrow> bool \<Rightarrow> PredictionResult" where
  "mockResult pf d online =
     \<lparr>predictedYield = \<lparr>value' = Num 4.2, unit = ''tonnes/hectare''\<rparr>,
      confidenceInterval = \<lparr>min' = Num 3.8, max' = Num 4.6\<rparr>,
      recommendations = mock_recommendations,
      explanation = mock_explanation pf d,
      isOffline = Some (\<not> online)\<rparr>"

text \<open>The validation of \<open>handlePredict\<close>: \<open>!data.cropName || !data.soilType || !data.farmSize.value\<close>.\<close>

definition invalid :: "PredictionData \<Rightarrow> bool" where
  "invalid d \<longleftrightarrow> cropName d = [] \<or> soilType d = [] \<or> \<not> truthy (value' (farmSize d))"

definition missing_information :: event where
  "missing_information =
     Toast ''Missing information'' ''Please fill in all required fields'' Destructive"

text \<open>
  \<open>handlePredict\<close> is declared \<open>async\<close> but awaits nothing, so it runs to its end in one
  turn. Nothing in its \<open>try\<close> block throws (the callback returns normally), so the
  \<open>catch\<close> branch with its "Prediction error" toast is never taken; \<open>finally\<close> clears
  \<open>isLoading\<close>.
\<close>

definition handlePredict :: "platform \<Rightarrow> props \<Rightarrow> state \<Rightarrow> state \<times> event list" where
  "handlePredict pf pr s =
     (if invalid (data s) then (s, [missing_information])
      else
        let s1 = s\<lparr>isLoading := True\<rparr>;
            s2 = s1\<lparr>result := Some (mockResult pf (data s) (isOnline s))\<rparr>;
            out = (if onPredict pr then [OnPredict (data s)] else []);
            s3 = s2\<lparr>isLoading := False\<rparr>
        in (s3, out))"

subsection \<open>handleSave\<close>

definition handleSave :: "props \<Rightarrow> state \<Rightarrow> state \<times> event list" where
  "handleSave pr s =
     (s, (if onSave pr then [OnSave (data s)] else [])
         @ [Toast ''Data saved'' ''Your farm data has been saved successfully'' Default])"

subsection \<open>The enrichment fetchers\<close>

text \<open>
  Each fetcher calls \<open>fetch\<close> at once and, when the request settles, logs the body or
  the error; its \<open>try\<close>/\<open>catch\<close> swallows every failure, so its promise always
  fulfils.
\<close>

datatype fetch_result = Json string | Failed

definition query :: "platform \<Rightarrow> number \<Rightarrow> number \<Rightarrow> string" where
  "query pf la lo = ''?lat='' @ toString pf la @ ''&lon='' @ toString pf lo"

definition fetchWeatherData :: "platform \<Rightarrow> number \<Rightarrow> number \<Rightarrow> event" where
  "fetchWeatherData pf la lo = Fetch (''/api/weather'' @ query pf la lo)"

definition fetchSoilData :: "platform \<Rightarrow> number \<Rightarrow> number \<Rightarrow> event" where
  "fetchSoilData pf la lo = Fetch (''/api/soil'' @ query pf la lo)"

fun weatherSettled :: "fetch_result \<Rightarrow> event" where
  "weatherSettled (Json body) = ConsoleLog ''Weather data:'' body"
| "weatherSettled Failed = ConsoleError ''Weather fetch error:''"

fun soilSettled :: "fetch_result \<Rightarrow> event" where
  "soilSettled (Json body) = ConsoleLog ''Soil data:'' body"
| "soilSettled Failed = ConsoleError ''Soil fetch error:''"

subsection \<open>detectLocation\<close>

text \<open>
  \<open>detectLocation\<close> suspends twice: at the position request and, when it fetches, at
  \<open>Promise.all\<close>. Between its turns other handlers run, among them the listeners of
  the \<open>online\<close> and \<open>offline\<close> events. Each turn is a function of its own; a suspended
  call carries what its closure holds: the \<open>isOnline\<close> of the render that created the
  callback (\<open>useCallback\<close> with the dependency \<open>isOnline\<close>), and later the name of the
  location. State is written with \<open>setData(prev => ...)\<close>, so each write applies to
  the state current at that turn.
\<close>

datatype geo_error = PermissionDenied | PositionUnavailable | Timeout

datatype position_result = Position number number | PositionError geo_error

definition location_error :: event where
  "location_error =
     Toast ''Location error'' ''Could not detect your location. Please select manually.''
       Destructive"

definition location_detected :: "string \<Rightarrow> event" where
  "location_detected locationName =
     Toast ''Location detected'' (''Farm location set to '' @ locationName) Default"

text \<open>First turn: the capability check, \<open>setIsLocating(true)\<close>, the position request.\<close>

definition detectLocation_begin :: "platform \<Rightarrow> state \<Rightarrow> bool option \<times> state \<times> event list" where
  "detectLocation_begin pf s =
     (if \<not> geolocation pf
      then (None, s,
            [Toast ''Location not supported''
               ''Your browser doesn't support location detection'' Destructive])
      else (Some (isOnline s), s\<lparr>isLocating := True\<rparr>, [GetCurrentPosition True 10000 300000]))"

text \<open>
  Second turn, when the position request settles; \<open>online\<close> is the captured flag. The
  result says whether the call is suspended again, on the two fetches.
\<close>

definition detectLocation_position ::
  "platform \<Rightarrow> bool \<Rightarrow> position_result \<Rightarrow> state \<Rightarrow> string option \<times> state \<times> event list" where
  "detectLocation_position pf online r s =
     (case r of
        PositionError e \<Rightarrow> (None, s\<lparr>isLocating := False\<rparr>, [location_error])
      | Position latitude longitude \<Rightarrow>
          let locationName = toFixed4 pf latitude @ '', '' @ toFixed4 pf longitude;
              s1 = s\<lparr>data := (data s)\<lparr>farmLocation :=
                     Some \<lparr>lat = latitude, lon = longitude, name = locationName\<rparr>\<rparr>\<rparr>
          in if online
             then (Some locationName, s1,
                   [fetchWeatherData pf latitude longitude, fetchSoilData pf latitude longitude])
             else (None, s1\<lparr>isLocating := False\<rparr>, [location_detected locationName]))"

text \<open>
  The two fetches run concurrently, and each fetcher logs when its own request settles:
  the order of the two console lines is the order of settlement.
\<close>

datatype settle_order = WeatherFirst | SoilFirst

fun settled :: "settle_order \<Rightarrow> fetch_result \<Rightarrow> fetch_result \<Rightarrow> event list" where
  "settled WeatherFirst w so = [weatherSettled w, soilSettled so]"
| "settled SoilFirst w so = [soilSettled so, weatherSettled w]"

text \<open>Third turn, when both fetchers have settled and \<open>Promise.all\<close> fulfils.\<close>

definition detectLocation_fetched ::
  "string \<Rightarrow> fetch_result \<Rightarrow> fetch_result \<Rightarrow> settle_order \<Rightarrow> state \<Rightarrow> state \<times> event list" where
  "detectLocation_fetched locationName w so ord s =
     (s\<lparr>isLocating := False\<rparr>, settled ord w so @ [location_detected locationName])"

text \<open>
  A whole call of \<open>detectLocation\<close> that completes: the network events \<open>evs1\<close> arrive
  while the position is awaited, \<open>evs2\<close> while the fetches are.
\<close>

definition detectLocation ::
  "platform \<Rightarrow> net_event list \<Rightarrow> position_result \<Rightarrow> net_event list \<Rightarrow> fetch_result \<Rightarrow>
   fetch_result \<Rightarrow> settle_order \<Rightarrow> state \<Rightarrow> state \<times> event list" where
  "detectLocation pf evs1 r evs2 w so ord s =
     (case detectLocation_begin pf s of
        (None, s1, out1) \<Rightarrow> (s1, out1)
      | (Some online, s1, out1) \<Rightarrow>
          (case detectLocation_position pf online r (fold handleNet evs1 s1) of
             (None, s2, out2) \<Rightarrow> (s2, out1 @ out2)
           | (Some locationName, s2, out2) \<Rightarrow>
               (case detectLocation_fetched locationName w so ord (fold handleNet evs2 s2) of
                  (s3, out3) \<Rightarrow> (s3, out1 @ out2 @ out3))))"

text \<open>The state in which the position request of that call settles.\<close>

definition at_position :: "platform \<Rightarrow> net_event list \<Rightarrow> state \<Rightarrow> state" where
  "at_position pf evs1 s = fold handleNet evs1 (fst (snd (detectLocation_begin pf s)))"

subsection \<open>The component as a transition system\<close>

text \<open>
  One turn of the component: a handler run from start to end, or one turn of a
  suspended \<open>detectLocation\<close> with the values its closure holds.
\<close>

datatype turn =
    SetData field_update
  | ToggleFertilizer string
  | HandlePredict
  | HandleSave
  | SetLanguage
  | Net net_event
  | LocateBegin
  | LocatePosition bool position_result
  | LocateFetched string fetch_result fetch_result settle_order

fun exec :: "platform \<Rightarrow> props \<Rightarrow> turn \<Rightarrow> state \<Rightarrow> state" where
  "exec pf pr (SetData u) s = setData u s"
| "exec pf pr (ToggleFertilizer f) s = toggleFertilizer f s"
| "exec pf pr HandlePredict s = fst (handlePredict pf pr s)"
| "exec pf pr HandleSave s = fst (handleSave pr s)"
| "exec pf pr SetLanguage s = s\<lparr>language := (if language s = En then Hi else En)\<rparr>"
| "exec pf pr (Net e) s = handleNet e s"
| "exec pf pr LocateBegin s = fst (snd (detectLocation_begin pf s))"
| "exec pf pr (LocatePosition online r) s = fst (snd (detectLocation_position pf online r s))"
| "exec pf pr (LocateFetched n w so ord) s = fst (detectLocation_fetched n w so ord s)"

definition run :: "platform \<Rightarrow> props \<Rightarrow> turn list \<Rightarrow> state \<Rightarrow> state" where
  "run pf pr ts s = fold (exec pf pr) ts s"

subsection \<open>Concrete inputs\<close>

text \<open>
  A platform on which the handlers can be evaluated: geolocation is available and both
  formatters print every number as the same placeholder.
\<close>

fun placeholder :: "number \<Rightarrow> string" where
  "placeholder _ = ''#''"

definition browser :: platform where
  "browser = \<lparr>geolocation = True, toFixed4 = placeholder, toString = placeholder\<rparr>"

text \<open>The form of section 8 of the specification: Rice on two hectares of loam, pH 6.5.\<close>

definition rice :: PredictionData where
  "rice = init_data\<lparr>cropName := ''Rice'', soilType := ''Loamy'',
     farmSize := \<lparr>value' = Num 2, unit = ''Hectares''\<rparr>, soilPH := Some (Num 6.5)\<rparr>"

text \<open>The same form with a farm size of \<open>-1\<close>, as typed into the number input.\<close>

definition negative_farm :: PredictionData where
  "negative_farm = updateField (SetFarmSizeValue (Num (- 1))) rice"

section \<open>Properties\<close>

subsection \<open>The fertilizer selection\<close>

lemma set_toggle_toggle: "set (toggle x (toggle x xs)) = set xs"
  by (auto simp: toggle_def)

lemma distinct_toggle: "distinct xs \<Longrightarrow> distinct (toggle x xs)"
  by (simp add: toggle_def)

lemma toggleFertilizer_fields:
  "selectedFertilizers (toggleFertilizer x s) = toggle x (selectedFertilizers s)"
  "fertilizersUsed (data (toggleFertilizer x s)) = toggle x (selectedFertilizers s)"
  by (simp_all add: toggleFertilizer_def Let_def)

lemma fold_toggleFertilizer_distinct:
  "selectedFertilizers s = fertilizersUsed (data s) \<Longrightarrow> distinct (selectedFertilizers s) \<Longrightarrow>
   selectedFertilizers (fold toggleFertilizer xs s)
     = fertilizersUsed (data (fold toggleFertilizer xs s))
   \<and> distinct (fertilizersUsed (data (fold toggleFertilizer xs s)))"
proof (induction xs arbitrary: s)
  case Nil
  then show ?case by simp
next
  case (Cons x xs)
  have "selectedFertilizers (toggleFertilizer x s) = fertilizersUsed (data (toggleFertilizer x s))"
    by (simp add: toggleFertilizer_fields)
  moreover have "distinct (selectedFertilizers (toggleFertilizer x s))"
    using Cons.prems by (simp add: toggleFertilizer_fields distinct_toggle)
  ultimately show ?case using Cons.IH by simp
qed

text \<open>
  C4. In every state in which the two copies of the selection agree (every state the
  component reaches, by C9), whatever list \<open>fertilizersUsed\<close> holds, toggling a
  fertilizer twice in a row gives \<open>fertilizersUsed\<close> the same set of elements as before;
  and after any sequence of \<open>toggleFertilizer\<close> calls from the initial state
  \<open>fertilizersUsed\<close> has no duplicates.
\<close>

theorem toggleFertilizer_involution:
  "(selectedFertilizers s = fertilizersUsed (data s) \<longrightarrow>
      set (fertilizersUsed (data (toggleFertilizer x (toggleFertilizer x s))))
        = set (fertilizersUsed (data s)))
   \<and> distinct (fertilizersUsed (data (fold toggleFertilizer xs (init online))))"
proof
  show "selectedFertilizers s = fertilizersUsed (data s) \<longrightarrow>
      set (fertilizersUsed (data (toggleFertilizer x (toggleFertilizer x s))))
        = set (fertilizersUsed (data s))"
    by (simp add: toggleFertilizer_fields set_toggle_toggle)
  have "selectedFertilizers (init online) = fertilizersUsed (data (init online))"
    by (simp add: init_def init_data_def)
  moreover have "distinct (selectedFertilizers (init online))"
    by (simp add: init_def)
  ultimately show "distinct (fertilizersUsed (data (fold toggleFertilizer xs (init online))))"
    using fold_toggleFertilizer_distinct by blast
qed

theorem toggleFertilizer_involution_witness:
  "selectedFertilizers (toggleFertilizer ''DAP'' (init True))
     = fertilizersUsed (data (toggleFertilizer ''DAP'' (init True)))
   \<and> set (fertilizersUsed (data (toggleFertilizer ''Urea'' (toggleFertilizer ''Urea''
        (toggleFertilizer ''DAP'' (init True))))))
     = set (fertilizersUsed (data (toggleFertilizer ''DAP'' (init True))))
   \<and> distinct (fertilizersUsed (data
        (fold toggleFertilizer [''Urea'', ''DAP'', ''Urea''] (init True))))"
  using toggleFertilizer_involution [of "toggleFertilizer ''DAP'' (init True)" "''Urea''"
      "[''Urea'', ''DAP'', ''Urea'']" True]
  by (simp add: toggleFertilizer_fields)

lemma exec_writes_neither:
  "\<forall>f. t \<noteq> ToggleFertilizer f \<Longrightarrow>
   selectedFertilizers (exec pf pr t s) = selectedFertilizers s
   \<and> fertilizersUsed (data (exec pf pr t s)) = fertilizersUsed (data s)"
proof (cases t)
  case (SetData u)
  then show ?thesis by (cases u) (simp_all add: setData_def)
next
  case (ToggleFertilizer f)
  assume "\<forall>f. t \<noteq> ToggleFertilizer f"
  with ToggleFertilizer show ?thesis by simp
next
  case HandlePredict
  then show ?thesis by (simp add: handlePredict_def Let_def)
next
  case HandleSave
  then show ?thesis by (simp add: handleSave_def)
next
  case SetLanguage
  then show ?thesis by simp
next
  case (Net e)
  then show ?thesis by (cases e) simp_all
next
  case LocateBegin
  then show ?thesis by (simp add: detectLocation_begin_def)
next
  case (LocatePosition online r)
  then show ?thesis by (cases r) (simp_all add: detectLocation_position_def Let_def)
next
  case (LocateFetched n w so ord)
  then show ?thesis by (simp add: detectLocation_fetched_def)
qed

lemma exec_copies:
  "selectedFertilizers s = fertilizersUsed (data s) \<Longrightarrow>
   selectedFertilizers (exec pf pr t s) = fertilizersUsed (data (exec pf pr t s))"
proof (cases "\<forall>f. t \<noteq> ToggleFertilizer f")
  case True
  assume "selectedFertilizers s = fertilizersUsed (data s)"
  with True show ?thesis by (simp add: exec_writes_neither)
next
  case False
  then obtain f where "t = ToggleFertilizer f" by blast
  then show ?thesis by (simp add: toggleFertilizer_fields)
qed

lemma run_copies:
  "selectedFertilizers s = fertilizersUsed (data s) \<Longrightarrow>
   selectedFertilizers (run pf pr ts s) = fertilizersUsed (data (run pf pr ts s))"
  unfolding run_def
  by (induction ts arbitrary: s) (simp_all add: exec_copies)

text \<open>
  C9. The component keeps the selection twice, in \<open>selectedFertilizers\<close> and in
  \<open>data.fertilizersUsed\<close>. From the initial state, after any sequence of turns of
  the component the two lists are equal: a turn other than \<open>toggleFertilizer\<close> writes
  neither, and \<open>toggleFertilizer\<close> writes the same list to both.
\<close>

theorem fertilizer_copies_agree:
  "selectedFertilizers (run pf pr ts (init online))
     = fertilizersUsed (data (run pf pr ts (init online)))
   \<and> ((\<forall>f. t \<noteq> ToggleFertilizer f) \<longrightarrow>
        selectedFertilizers (exec pf pr t s) = selectedFertilizers s
        \<and> fertilizersUsed (data (exec pf pr t s)) = fertilizersUsed (data s))
   \<and> selectedFertilizers (toggleFertilizer x s) = fertilizersUsed (data (toggleFertilizer x s))"
proof (intro conjI impI)
  show "selectedFertilizers (run pf pr ts (init online))
     = fertilizersUsed (data (run pf pr ts (init online)))"
    by (rule run_copies) (simp add: init_def init_data_def)
  show "selectedFertilizers (toggleFertilizer x s) = fertilizersUsed (data (toggleFertilizer x s))"
    by (simp add: toggleFertilizer_fields)
next
  assume "\<forall>f. t \<noteq> ToggleFertilizer f"
  then show "selectedFertilizers (exec pf pr t s) = selectedFertilizers s"
    by (simp add: exec_writes_neither)
next
  assume "\<forall>f. t \<noteq> ToggleFertilizer f"
  then show "fertilizersUsed (data (exec pf pr t s)) = fertilizersUsed (data s)"
    by (simp add: exec_writes_neither)
qed

theorem fertilizer_copies_agree_witness:
  "selectedFertilizers (run browser Index
      [ToggleFertilizer ''Urea'', SetData (SetCropName ''Rice''), LocateBegin,
       ToggleFertilizer ''DAP'', LocatePosition True (Position (Num 12) (Num 77)),
       HandlePredict, ToggleFertilizer ''Urea'', HandleSave] (init True)) = [''DAP'']
   \<and> fertilizersUsed (data (run browser Index
      [ToggleFertilizer ''Urea'', SetData (SetCropName ''Rice''), LocateBegin,
       ToggleFertilizer ''DAP'', LocatePosition True (Position (Num 12) (Num 77)),
       HandlePredict, ToggleFertilizer ''Urea'', HandleSave] (init True))) = [''DAP'']
   \<and> selectedFertilizers (exec browser Index HandleSave (toggleFertilizer ''Lime'' (init True)))
       = [''Lime'']"
  using fertilizer_copies_agree [of browser Index
      "[ToggleFertilizer ''Urea'', SetData (SetCropName ''Rice''), LocateBegin,
       ToggleFertilizer ''DAP'', LocatePosition True (Position (Num 12) (Num 77)),
       HandlePredict, ToggleFertilizer ''Urea'', HandleSave]" True HandleSave
      "toggleFertilizer ''Lime'' (init True)"]
  by (simp add: run_def toggleFertilizer_fields setData_def detectLocation_begin_def
      detectLocation_position_def handlePredict_def handleSave_def Let_def init_def
      init_data_def toggle_def)

subsection \<open>Field updates\<close>

lemma updateField_other: "f \<noteq> target u \<Longrightarrow> proj f (updateField u d) = proj f d"
  by (cases u; cases f) simp_all

lemma fold_updateField_other:
  "f \<notin> target ` set us \<Longrightarrow> proj f (fold updateField us d) = proj f d"
  by (induction us arbitrary: d) (simp_all add: updateField_other)

text \<open>
  C5. After any sequence of field updates, every attribute of the \<open>PredictionData\<close>
  that none of the updates targets has the value it had before; an update of
  \<open>farmSize.value\<close> leaves \<open>farmSize.unit\<close> as it was, and an update of
  \<open>farmSize.unit\<close> leaves \<open>farmSize.value\<close> as it was.
\<close>

theorem updateField_frame:
  "(\<forall>f. f \<notin> target ` set us \<longrightarrow> proj f (fold updateField us d) = proj f d)
   \<and> unit (farmSize (updateField (SetFarmSizeValue v) d)) = unit (farmSize d)
   \<and> value' (farmSize (updateField (SetFarmSizeUnit u) d)) = value' (farmSize d)"
proof (intro conjI allI impI)
  fix f
  assume "f \<notin> target ` set us"
  then show "proj f (fold updateField us d) = proj f d"
    by (rule fold_updateField_other)
next
  show "unit (farmSize (updateField (SetFarmSizeValue v) d)) = unit (farmSize d)"
    by simp
next
  show "value' (farmSize (updateField (SetFarmSizeUnit u) d)) = value' (farmSize d)"
    by simp
qed

theorem updateField_frame_witness:
  "FFarmSizeUnit \<notin> target ` set [SetFarmSizeValue (Num 2), SetCropName ''Rice'', SetSoilPH (Num 0)]
   \<and> proj FFarmSizeUnit
        (fold updateField [SetFarmSizeValue (Num 2), SetCropName ''Rice'', SetSoilPH (Num 0)]
           init_data)
      = VString ''Hectares''
   \<and> unit (farmSize (updateField (SetFarmSizeValue (Num 2)) init_data)) = ''Hectares''
   \<and> value' (farmSize (updateField (SetFarmSizeUnit ''Acres'') rice)) = Num 2"
  using updateField_frame
    [of "[SetFarmSizeValue (Num 2), SetCropName ''Rice'', SetSoilPH (Num 0)]" init_data
      "Num 2" "''Acres''"]
    updateField_frame [of "[]" rice "Num 2" "''Acres''"]
  by (simp add: init_data_def rice_def)

subsection \<open>Prediction\<close>

lemma handlePredict_invalid:
  "invalid (data s) \<Longrightarrow> handlePredict pf pr s = (s, [missing_information])"
  by (simp add: handlePredict_def)

lemma handlePredict_valid:
  "\<not> invalid (data s) \<Longrightarrow>
   handlePredict pf pr s =
     (s\<lparr>isLoading := False, result := Some (mockResult pf (data s) (isOnline s))\<rparr>,
      if onPredict pr then [OnPredict (data s)] else [])"
  by (simp add: handlePredict_def Let_def)

lemma invalid_rice: "\<not> invalid rice"
  by (simp add: invalid_def rice_def init_data_def)

lemma invalid_negative_farm: "\<not> invalid negative_farm"
  by (simp add: invalid_def negative_farm_def rice_def init_data_def or_zero_def)

lemma js_gt_zero_truthy: "js_gt v (Num 0) \<Longrightarrow> truthy v"
  by (cases v) simp_all

lemma not_negative_truthy: "\<not> js_gt (Num 0) v \<Longrightarrow> truthy v \<Longrightarrow> js_gt v (Num 0)"
  by (cases v) simp_all

text \<open>
  The validation tests \<open>farmSize.value\<close> for truthiness only. On every form whose farm
  size is not negative this is the test \<open>farmSize.value > 0\<close>: such a form is refused
  with the "Missing information" toast, the state unchanged, exactly when \<open>cropName\<close>
  is empty, \<open>soilType\<close> is empty or \<open>farmSize.value\<close> is not greater than \<open>0\<close>.
\<close>

lemma handlePredict_validation_not_negative:
  assumes "\<not> js_gt (Num 0) (value' (farmSize (data s)))"
  shows "handlePredict pf pr s = (s, [missing_information]) \<longleftrightarrow>
           cropName (data s) = [] \<or> soilType (data s) = []
           \<or> \<not> js_gt (value' (farmSize (data s))) (Num 0)"
proof (cases "invalid (data s)")
  case True
  then have "cropName (data s) = [] \<or> soilType (data s) = []
      \<or> \<not> js_gt (value' (farmSize (data s))) (Num 0)"
    using js_gt_zero_truthy by (auto simp: invalid_def)
  with True show ?thesis by (simp add: handlePredict_invalid)
next
  case False
  then have "handlePredict pf pr s \<noteq> (s, [missing_information])"
    by (auto simp: handlePredict_valid missing_information_def)
  moreover have "cropName (data s) \<noteq> [] \<and> soilType (data s) \<noteq> []
      \<and> js_gt (value' (farmSize (data s))) (Num 0)"
    using False assms not_negative_truthy by (auto simp: invalid_def)
  ultimately show ?thesis by simp
qed

text \<open>
  C1. The claim has \<open>handlePredict\<close> fail, the result unchanged, whenever
  \<open>farmSize.value\<close> is not greater than \<open>0\<close>. The code misses the negative sizes. The
  farm-size input declares \<open>min="0"\<close>, but its handler stores a typed \<open>-1\<close> as it is,
  and the validation \<open>!data.farmSize.value\<close> lets it through, \<open>-1\<close> being truthy: with
  crop Rice, soil Loamy and a farm size of \<open>-1\<close>, \<open>handlePredict\<close> shows no
  "Missing information" toast, stores a result where there was none and calls
  \<open>onPredict\<close>.
\<close>

theorem handlePredict_accepts_negative_size:
  "value' (farmSize negative_farm) = Num (- 1)
   \<and> \<not> js_gt (value' (farmSize (data ((init True)\<lparr>data := negative_farm\<rparr>)))) (Num 0)
   \<and> result ((init True)\<lparr>data := negative_farm\<rparr>) = None
   \<and> result (fst (handlePredict browser Index ((init True)\<lparr>data := negative_farm\<rparr>)))
       = Some (mockResult browser negative_farm True)
   \<and> snd (handlePredict browser Index ((init True)\<lparr>data := negative_farm\<rparr>))
       = [OnPredict negative_farm]"
  by (simp add: handlePredict_valid invalid_negative_farm Index_def)
     (simp add: negative_farm_def rice_def init_data_def or_zero_def init_def)

text \<open>
  C2. In every state that passes the validation, \<open>handlePredict\<close> stores a result whose
  confidence interval has \<open>min <= max\<close> and whose \<open>isOffline\<close> is the negation of
  \<open>isOnline\<close> at the time of the call; it shows no toast, its only effect on the
  collaborators is the call of \<open>onPredict\<close>, and it leaves \<open>isLoading\<close> cleared.
\<close>

theorem handlePredict_succeeds:
  "\<not> invalid (data s) \<Longrightarrow>
   (\<exists>r. result (fst (handlePredict pf pr s)) = Some r
      \<and> js_le (min' (confidenceInterval r)) (max' (confidenceInterval r))
      \<and> isOffline r = Some (\<not> isOnline s))
   \<and> snd (handlePredict pf pr s) = (if onPredict pr then [OnPredict (data s)] else [])
   \<and> \<not> isLoading (fst (handlePredict pf pr s))"
proof -
  assume valid: "\<not> invalid (data s)"
  define r where "r = mockResult pf (data s) (isOnline s)"
  have stored: "result (fst (handlePredict pf pr s)) = Some r"
    using valid by (simp add: handlePredict_valid r_def)
  have "confidenceInterval r = \<lparr>min' = Num 3.8, max' = Num 4.6\<rparr>"
    by (simp add: r_def mockResult_def)
  then have bounds: "js_le (min' (confidenceInterval r)) (max' (confidenceInterval r))"
    by simp
  have offline: "isOffline r = Some (\<not> isOnline s)"
    by (simp add: r_def mockResult_def)
  have effects: "snd (handlePredict pf pr s) = (if onPredict pr then [OnPredict (data s)] else [])"
    using valid by (simp add: handlePredict_valid)
  have loading: "\<not> isLoading (fst (handlePredict pf pr s))"
    using valid by (simp add: handlePredict_valid)
  from stored bounds offline effects loading show ?thesis by blast
qed

theorem handlePredict_succeeds_witness:
  "\<not> invalid (data ((init True)\<lparr>data := rice\<rparr>))
   \<and> (\<exists>r. result (fst (handlePredict browser Index ((init True)\<lparr>data := rice\<rparr>))) = Some r
      \<and> js_le (min' (confidenceInterval r)) (max' (confidenceInterval r))
      \<and> isOffline r = Some False)
   \<and> snd (handlePredict browser Index ((init True)\<lparr>data := rice\<rparr>)) = [OnPredict rice]"
proof -
  have h: "\<not> invalid (data ((init True)\<lparr>data := rice\<rparr>))"
    by (simp add: invalid_rice)
  show ?thesis
    using h handlePredict_succeeds [OF h, of browser Index]
    by (simp add: Index_def init_def)
qed

text \<open>
  C10. Every \<open>handlePredict\<close> that passes the validation stores the same yield
  \<open>{4.2, tonnes/hectare}\<close>, the same interval \<open>{3.8, 4.6}\<close> and the same list of
  three recommendations, whatever the form holds; the explanation is the fixed text
  around \<open>cropName\<close> and \<open>soilPH\<close>, and \<open>isOffline\<close> is the negation of \<open>isOnline\<close>.
\<close>

theorem handlePredict_fixed_result:
  "\<not> invalid (data s) \<Longrightarrow>
   (\<exists>r. result (fst (handlePredict pf pr s)) = Some r
      \<and> predictedYield r = \<lparr>value' = Num 4.2, unit = ''tonnes/hectare''\<rparr>
      \<and> confidenceInterval r = \<lparr>min' = Num 3.8, max' = Num 4.6\<rparr>
      \<and> recommendations r = mock_recommendations
      \<and> length (recommendations r) = 3
      \<and> map type' (recommendations r) = [''irrigation'', ''fertilization'', ''pest'']
      \<and> explanation r =
          ''Based on your '' @ cropName (data s) @
          '' variety, soil conditions, and current weather patterns, we predict a yield of 4.2 tonnes per hectare. The soil pH of ''
          @ (case soilPH (data s) of None \<Rightarrow> ''null'' | Some x \<Rightarrow> toString pf x) @
          '' is optimal for this crop. Consider the recommendations above to potentially increase yield by 8-12%.''
      \<and> isOffline r = Some (\<not> isOnline s))"
  by (simp add: handlePredict_valid mockResult_def mock_recommendations_def
      mock_explanation_def show_soilPH_def)

theorem handlePredict_fixed_result_witness:
  "\<not> invalid (data ((init True)\<lparr>data := rice\<rparr>))
   \<and> (\<exists>r. result (fst (handlePredict browser Index ((init True)\<lparr>data := rice\<rparr>))) = Some r
      \<and> predictedYield r = \<lparr>value' = Num 4.2, unit = ''tonnes/hectare''\<rparr>
      \<and> confidenceInterval r = \<lparr>min' = Num 3.8, max' = Num 4.6\<rparr>
      \<and> map title (recommendations r)
          = [''Optimize Irrigation'', ''Nitrogen Boost'', ''Pest Monitoring'']
      \<and> isOffline r = Some False)"
proof -
  have h: "\<not> invalid (data ((init True)\<lparr>data := rice\<rparr>))"
    by (simp add: invalid_rice)
  show ?thesis
    using h handlePredict_fixed_result [OF h, of browser Index]
    by (auto simp: init_def mock_recommendations_def)
qed

subsection \<open>Saving\<close>

text \<open>
  C3. In every state, valid or not, \<open>handleSave\<close> with an \<open>onSave\<close> callback calls it
  exactly once, with the \<open>data\<close> of the state as it is, and changes no state cell.
\<close>

theorem handleSave_forwards:
  "onSave pr \<Longrightarrow>
   fst (handleSave pr s) = s
   \<and> filter is_OnSave (snd (handleSave pr s)) = [OnSave (data s)]
   \<and> snd (handleSave pr s)
       = [OnSave (data s),
          Toast ''Data saved'' ''Your farm data has been saved successfully'' Default]"
proof -
  assume supplied: "onSave pr"
  have state: "fst (handleSave pr s) = s"
    by (simp add: handleSave_def)
  have effects: "snd (handleSave pr s)
       = [OnSave (data s),
          Toast ''Data saved'' ''Your farm data has been saved successfully'' Default]"
    using supplied by (simp add: handleSave_def)
  then have "filter is_OnSave (snd (handleSave pr s)) = [OnSave (data s)]"
    by simp
  with state effects show ?thesis by simp
qed

theorem handleSave_forwards_witness:
  "onSave Index
   \<and> fst (handleSave Index (init True)) = init True
   \<and> filter is_OnSave (snd (handleSave Index (init True))) = [OnSave init_data]"
proof -
  have h: "onSave Index" by (simp add: Index_def)
  show ?thesis using h handleSave_forwards [OF h, of "init True"]
    by (simp add: init_def)
qed

subsection \<open>Location detection\<close>

lemma fold_handleNet_data: "data (fold handleNet evs s) = data s"
proof (induction evs arbitrary: s)
  case Nil
  show ?case by simp
next
  case (Cons e evs)
  then show ?case by (cases e) simp_all
qed

lemma detectLocation_unsupported:
  "\<not> geolocation pf \<Longrightarrow> detectLocation pf evs1 r evs2 w so ord s =
     (s, [Toast ''Location not supported''
            ''Your browser doesn't support location detection'' Destructive])"
  by (simp add: detectLocation_def detectLocation_begin_def)

lemma detectLocation_error:
  "geolocation pf \<Longrightarrow> detectLocation pf evs1 (PositionError e) evs2 w so ord s =
     ((fold handleNet evs1 (s\<lparr>isLocating := True\<rparr>))\<lparr>isLocating := False\<rparr>,
      [GetCurrentPosition True 10000 300000, location_error])"
  by (simp add: detectLocation_def detectLocation_begin_def detectLocation_position_def)

lemma detectLocation_offline:
  "geolocation pf \<Longrightarrow> \<not> isOnline s \<Longrightarrow>
   detectLocation pf evs1 (Position la lo) evs2 w so ord s =
     ((fold handleNet evs1 (s\<lparr>isLocating := True\<rparr>))
        \<lparr>data := (data (fold handleNet evs1 (s\<lparr>isLocating := True\<rparr>)))\<lparr>farmLocation :=
            Some \<lparr>lat = la, lon = lo, name = toFixed4 pf la @ '', '' @ toFixed4 pf lo\<rparr>\<rparr>,
         isLocating := False\<rparr>,
      [GetCurrentPosition True 10000 300000,
       location_detected (toFixed4 pf la @ '', '' @ toFixed4 pf lo)])"
  by (simp add: detectLocation_def detectLocation_begin_def detectLocation_position_def Let_def)

lemma detectLocation_online:
  "geolocation pf \<Longrightarrow> isOnline s \<Longrightarrow>
   detectLocation pf evs1 (Position la lo) evs2 w so ord s =
     ((fold handleNet evs2
        ((fold handleNet evs1 (s\<lparr>isLocating := True\<rparr>))
          \<lparr>data := (data (fold handleNet evs1 (s\<lparr>isLocating := True\<rparr>)))\<lparr>farmLocation :=
            Some \<lparr>lat = la, lon = lo, name = toFixed4 pf la @ '', '' @ toFixed4 pf lo\<rparr>\<rparr>\<rparr>))
        \<lparr>isLocating := False\<rparr>,
      [GetCurrentPosition True 10000 300000,
       fetchWeatherData pf la lo, fetchSoilData pf la lo]
      @ settled ord w so @ [location_detected (toFixed4 pf la @ '', '' @ toFixed4 pf lo)])"
  by (simp add: detectLocation_def detectLocation_begin_def detectLocation_position_def
      detectLocation_fetched_def Let_def)

lemma is_fetch_simps [simp]:
  "\<not> is_fetch location_error" "\<not> is_fetch (location_detected n)"
  "is_fetch (fetchWeatherData pf la lo)" "is_fetch (fetchSoilData pf la lo)"
  "\<not> is_fetch (weatherSettled w)" "\<not> is_fetch (soilSettled w)"
  by (simp_all add: location_error_def location_detected_def fetchWeatherData_def
      fetchSoilData_def, (cases w; simp)+)

lemma filter_is_fetch_settled [simp]: "filter is_fetch (settled ord w so) = []"
  by (cases ord) simp_all

text \<open>
  The guard \<open>if (isOnline)\<close> before the fetches reads the flag the closure of the call
  holds, the one of the state in which \<open>detectLocation\<close> was called. Where the flag is
  the same when the position request settles, a call that finds it false there invokes
  neither fetcher.
\<close>

lemma detectLocation_no_fetch_flag_unchanged:
  assumes "isOnline (at_position pf evs1 s) = isOnline s"
    and "\<not> isOnline (at_position pf evs1 s)"
  shows "filter is_fetch (snd (detectLocation pf evs1 r evs2 w so ord s)) = []"
proof (cases "geolocation pf")
  case False
  then show ?thesis by (simp add: detectLocation_unsupported)
next
  case True
  from assms have "\<not> isOnline s" by simp
  with True show ?thesis
    by (cases r) (simp_all add: detectLocation_offline detectLocation_error)
qed

text \<open>
  C6. The claim has no fetcher invoked whenever the flag is false at the time the
  position request succeeds. The code tests a stale flag: \<open>detectLocation\<close> is called
  online, the \<open>offline\<close> event is handled while the position is awaited, so
  \<open>isOnline\<close> is false when the request succeeds at \<open>(12, 77)\<close>; the guard after the
  \<open>await\<close> still reads the \<open>isOnline\<close> of the closure, which is true, and both
  fetchers are invoked.
\<close>

theorem detectLocation_fetches_while_offline:
  "isOnline (init True)
   \<and> \<not> isOnline (at_position browser [Offline] (init True))
   \<and> filter is_fetch
        (snd (detectLocation browser [Offline] (Position (Num 12) (Num 77)) [] Failed Failed SoilFirst
               (init True)))
     = [Fetch ''/api/weather?lat=#&lon=#'', Fetch ''/api/soil?lat=#&lon=#'']"
  by (simp add: at_position_def detectLocation_begin_def detectLocation_online browser_def
      init_def fetchWeatherData_def fetchSoilData_def query_def)

text \<open>
  C7. Whenever the position request of \<open>detectLocation\<close> fails, for any of the three
  reasons, \<open>farmLocation\<close> is after the call what it was before. No turn of the failing
  path writes \<open>data\<close> at all, and without \<open>navigator.geolocation\<close> the call changes no
  state cell.
\<close>

theorem detectLocation_failure_keeps_location:
  "farmLocation (data (fst (detectLocation pf evs1 (PositionError e) evs2 w so ord s)))
     = farmLocation (data s)
   \<and> data (fst (snd (detectLocation_begin pf s))) = data s
   \<and> data (fst (snd (detectLocation_position pf online (PositionError e) s))) = data s
   \<and> (\<not> geolocation pf \<longrightarrow> fst (detectLocation pf evs1 r evs2 w so ord s) = s)"
proof (cases "geolocation pf")
  case True
  then show ?thesis
    by (simp add: detectLocation_error fold_handleNet_data detectLocation_begin_def
        detectLocation_position_def)
next
  case False
  then show ?thesis
    by (simp add: detectLocation_unsupported detectLocation_begin_def
        detectLocation_position_def)
qed

theorem detectLocation_failure_keeps_location_witness:
  "farmLocation (data (fst (detectLocation browser [Offline] (PositionError PermissionDenied) []
       Failed Failed SoilFirst
       (fst (detectLocation browser [] (Position (Num 12) (Num 77)) [] Failed Failed SoilFirst (init False))))))
     = Some \<lparr>lat = Num 12, lon = Num 77, name = ''#, #''\<rparr>
   \<and> \<not> geolocation (browser\<lparr>geolocation := False\<rparr>)
   \<and> fst (detectLocation (browser\<lparr>geolocation := False\<rparr>) [] (Position (Num 12) (Num 77)) []
        Failed Failed SoilFirst (init True)) = init True"
proof -
  have g: "geolocation browser" by (simp add: browser_def)
  have h: "\<not> isOnline (init False)" by (simp add: init_def)
  show ?thesis
    using detectLocation_failure_keeps_location
      [of browser "[Offline]" PermissionDenied "[]" Failed Failed SoilFirst
        "fst (detectLocation browser [] (Position (Num 12) (Num 77)) [] Failed Failed SoilFirst (init False))"]
      detectLocation_failure_keeps_location
      [of "browser\<lparr>geolocation := False\<rparr>" "[]" PermissionDenied "[]" Failed Failed SoilFirst "init True"
        True "Position (Num 12) (Num 77)"]
    by (simp add: detectLocation_offline [OF g h]) (simp add: browser_def)
qed

text \<open>
  C8. Every call of \<open>detectLocation\<close> that passes the capability check and completes
  leaves \<open>isLocating\<close> false: when the position request fails, when it succeeds offline,
  and when it succeeds online, whether the two fetches succeed or fail.
\<close>

theorem detectLocation_clears_isLocating:
  "geolocation pf \<Longrightarrow> \<not> isLocating (fst (detectLocation pf evs1 r evs2 w so ord s))"
proof -
  assume g: "geolocation pf"
  show ?thesis
  proof (cases r)
    case (PositionError e)
    then show ?thesis using g by (simp add: detectLocation_error)
  next
    case (Position la lo)
    then show ?thesis using g
      by (cases "isOnline s") (simp_all add: detectLocation_online detectLocation_offline)
  qed
qed

theorem detectLocation_clears_isLocating_witness:
  "geolocation browser
   \<and> \<not> isLocating (fst (detectLocation browser [] (Position (Num 12) (Num 77)) [Offline]
         Failed (Json ''{}'') WeatherFirst (init True)))
   \<and> \<not> isLocating (fst (detectLocation browser [] (PositionError Timeout) [] Failed Failed SoilFirst
         (init True)))"
proof -
  have g: "geolocation browser" by (simp add: browser_def)
  show ?thesis
    using g
      detectLocation_clears_isLocating [OF g, of "[]" "Position (Num 12) (Num 77)" "[Offline]"
        Failed "Json ''{}''" WeatherFirst "init True"]
      detectLocation_clears_isLocating [OF g, of "[]" "PositionError Timeout" "[]" Failed Failed SoilFirst
        "init True"]
    by simp
qed

end
